theory Spec2Isabelle
  imports Main "HOL-Library.Sublist"
begin

section \<open>Values and rows\<close>

text \<open>
  The data-access layer of the client/agent record store (\<^verbatim>\<open>app/crud.py\<close> over the
  mapped classes of \<^verbatim>\<open>app/models.py\<close>). Identifiers of type UUID, timestamps and
  calendar dates are opaque in the code; they are numbers here. A dictionary that a
  function returns is the list of its items in the order of the dict literal.
\<close>

type_synonym UUID = nat
type_synonym datetime = int
type_synonym date = int

datatype pyval =
    VNone
  | VBool bool
  | VInt int
  | VStr string
  | VUUID UUID
  | VDate date
  | VDateTime datetime
  | VList "pyval list"
  | VDict "(string \<times> pyval) list"

text \<open>
  The exceptions the layer raises itself (the three \<^verbatim>\<open>ValueError\<close>s of crud.py) and the
  ones that reach it from the session: \<^verbatim>\<open>IntegrityError\<close> for a violated constraint,
  \<^verbatim>\<open>DataError\<close> for a value a column cannot hold, \<^verbatim>\<open>TypeError\<close> and
  \<^verbatim>\<open>AttributeError\<close> for an assignment to a relationship that is not made of mapped
  instances.
\<close>

datatype error =
    ValueError_agent_not_found UUID
  | ValueError_agent_has_linked_clients
  | ValueError_client_not_found
  | IntegrityError
  | DataError
  | TypeError
  | AttributeError

text \<open>
  Agent and Client instances receive arbitrary values through \<^verbatim>\<open>setattr\<close> and hold
  \<^verbatim>\<open>None\<close> in every attribute until a flush fills the defaults, so each of their
  columns is optional; the constraints of the columns are checked when a row is written.
\<close>

record Agent =
  agent_id :: "UUID option"
  external_id :: "int option"
  last_name :: "string option"
  first_name :: "string option"
  middle_name :: "string option"
  legal_address :: "string option"
  actual_address :: "string option"
  inn :: "string option"
  ogrnip :: "string option"
  account_number :: "string option"
  correspondent_account :: "string option"
  bic :: "string option"

record Status =
  status_code :: string
  description :: string

record Stage =
  stage_code :: string
  description :: string

record Client =
  client_id :: "UUID option"
  external_id :: "int option"
  last_name :: "string option"
  first_name :: "string option"
  middle_name :: "string option"
  status_code :: "string option"
  current_stage :: "string option"
  agent_id :: "UUID option"
  deadline :: "datetime option"
  created_at :: "datetime option"
  updated_at :: "datetime option"
  "notes" :: "string option"

record Document =
  document_id :: UUID
  client_id :: UUID
  type_code :: string
  filename :: string
  object_key :: string
  version :: int
  uploaded_at :: datetime

record Phone =
  phone_id :: int
  client_id :: UUID
  number :: string
  created_at :: datetime

record Passport =
  passport_id :: UUID
  client_id :: UUID
  full_name :: string
  birth_date :: "date option"
  birth_place :: string
  series_number :: string
  issued_by :: string
  issue_date :: date
  department_code :: "string option"
  expiry_date :: "date option"
  registration_address :: string
  version :: int
  created_at :: datetime

record Snils =
  snils_id :: UUID
  client_id :: UUID
  number :: string
  issued_date :: "date option"
  version :: int
  created_at :: datetime

record Reminder =
  reminder_id :: UUID
  client_id :: UUID
  service_stage :: string
  remind_at :: datetime
  created_at :: datetime

subsection \<open>The request schemas the layer reads\<close>

record PhoneCreate =
  number :: string

record ClientCreate =
  last_name :: string
  first_name :: string
  middle_name :: "string option"
  status_code :: string
  current_stage :: string
  agent_id :: UUID
  deadline :: "datetime option"
  "notes" :: "string option"
  phones :: "PhoneCreate list option"

record AgentCreate =
  last_name :: string
  first_name :: "string option"
  middle_name :: "string option"
  legal_address :: string
  actual_address :: string
  inn :: string
  ogrnip :: string
  account_number :: string
  correspondent_account :: "string option"
  bic :: string

record PassportCreate =
  full_name :: string
  birth_date :: "date option"
  birth_place :: string
  series_number :: string
  issued_by :: string
  issue_date :: date
  department_code :: "string option"
  expiry_date :: "date option"
  registration_address :: string

section \<open>The store\<close>

text \<open>
  The committed state: every table is the list of its rows in the order in which a
  \<^verbatim>\<open>SELECT\<close> without \<^verbatim>\<open>ORDER BY\<close> returns them (an order the database leaves
  open, so nothing is assumed about it), and every sequence is the value its next
  \<^verbatim>\<open>nextval\<close> returns. A sequence is not transactional: a rollback restores the
  tables and keeps the sequences where they are.
\<close>

record DB =
  AGENT :: "Agent list"
  STATUS :: "Status list"
  STAGE :: "Stage list"
  CLIENT :: "Client list"
  DOCUMENT :: "Document list"
  PHONE :: "Phone list"
  PASSPORT :: "Passport list"
  SNILS :: "Snils list"
  REMINDER :: "Reminder list"
  agent_external_id_seq :: int
  client_external_id_seq :: int
  phone_id_seq :: int

definition rollback :: "DB \<Rightarrow> DB \<Rightarrow> DB" where
  "rollback db0 db1 =
     db0\<lparr>agent_external_id_seq := agent_external_id_seq db1,
         client_external_id_seq := client_external_id_seq db1,
         phone_id_seq := phone_id_seq db1\<rparr>"

text \<open>\<^verbatim>\<open>nextval\<close> on a sequence with upper bound \<open>hi\<close>: the value issued and the new state.\<close>

definition nextval :: "int \<Rightarrow> int \<Rightarrow> (int \<times> int) option" where
  "nextval hi s = (if s \<le> hi then Some (s, s + 1) else None)"

definition bigint_max :: int where
  "bigint_max = 9223372036854775807"

definition integer_max :: int where
  "integer_max = 2147483647"

text \<open>\<^verbatim>\<open>db.get(Model, key)\<close>: the row with that primary key.\<close>

definition get_Agent :: "DB \<Rightarrow> UUID \<Rightarrow> Agent option" where
  "get_Agent db k = find (\<lambda>a. Agent.agent_id a = Some k) (AGENT db)"

definition get_Client :: "DB \<Rightarrow> UUID \<Rightarrow> Client option" where
  "get_Client db k = find (\<lambda>c. Client.client_id c = Some k) (CLIENT db)"

definition get_Status :: "DB \<Rightarrow> string \<Rightarrow> Status option" where
  "get_Status db k = find (\<lambda>st. Status.status_code st = k) (STATUS db)"

definition get_Stage :: "DB \<Rightarrow> string \<Rightarrow> Stage option" where
  "get_Stage db k = find (\<lambda>sg. Stage.stage_code sg = k) (STAGE db)"

subsection \<open>Constraints of the columns\<close>

definition too_long :: "nat \<Rightarrow> string option \<Rightarrow> bool" where
  "too_long n v = (case v of None \<Rightarrow> False | Some s \<Rightarrow> n < length s)"

definition out_of_bigint :: "int option \<Rightarrow> bool" where
  "out_of_bigint v = (case v of None \<Rightarrow> False | Some n \<Rightarrow> n < - bigint_max - 1 \<or> bigint_max < n)"

text \<open>
  What refuses a CLIENT row \<open>r\<close> beside the rows \<open>others\<close>: the lengths of
  \<^verbatim>\<open>String(128)\<close> and \<^verbatim>\<open>String(32)\<close> and the range of \<^verbatim>\<open>BigInteger\<close>, the columns
  with \<^verbatim>\<open>nullable=False\<close>, the primary key and \<^verbatim>\<open>unique=True\<close>, and the three foreign
  keys.
\<close>

definition Client_violation :: "DB \<Rightarrow> Client list \<Rightarrow> Client \<Rightarrow> error option" where
  "Client_violation db others r =
     (if too_long 128 (Client.last_name r) \<or> too_long 128 (Client.first_name r)
         \<or> too_long 128 (Client.middle_name r) \<or> too_long 32 (Client.status_code r)
         \<or> too_long 32 (Client.current_stage r) \<or> out_of_bigint (Client.external_id r)
      then Some DataError
      else if Client.client_id r = None \<or> Client.external_id r = None
         \<or> Client.last_name r = None \<or> Client.first_name r = None
         \<or> Client.status_code r = None \<or> Client.current_stage r = None
         \<or> Client.agent_id r = None \<or> Client.created_at r = None
         \<or> Client.updated_at r = None
      then Some IntegrityError
      else if Client.client_id r \<in> set (map Client.client_id others)
         \<or> Client.external_id r \<in> set (map Client.external_id others)
      then Some IntegrityError
      else if get_Status db (the (Client.status_code r)) = None
         \<or> get_Stage db (the (Client.current_stage r)) = None
         \<or> get_Agent db (the (Client.agent_id r)) = None
      then Some IntegrityError
      else None)"

definition Phone_violation :: "DB \<Rightarrow> Phone \<Rightarrow> error option" where
  "Phone_violation db r =
     (if 32 < length (Phone.number r) then Some DataError
      else if Phone.phone_id r \<in> set (map Phone.phone_id (PHONE db)) then Some IntegrityError
      else if get_Client db (Phone.client_id r) = None then Some IntegrityError
      else None)"

section \<open>Dossier assembly\<close>

text \<open>
  The \<^verbatim>\<open>client\<close> argument of \<^verbatim>\<open>_client_to_dict\<close>: the columns, and what
  \<^verbatim>\<open>getattr(client, name, None)\<close> gives for each relationship the function reads
  (\<open>None\<close> when the relationship is not there).
\<close>

record Client_instance =
  columns :: Client
  phones :: "Phone list option"
  agent :: "Agent option"
  passports :: "Passport list option"
  snils :: "Snils list option"

definition opt :: "('a \<Rightarrow> pyval) \<Rightarrow> 'a option \<Rightarrow> pyval" where
  "opt f v = (case v of None \<Rightarrow> VNone | Some x \<Rightarrow> f x)"

definition client_to_dict :: "DB \<Rightarrow> Client_instance \<Rightarrow> (string \<times> pyval) list" where
  "client_to_dict db client =
    (let c = Client_instance.columns client;
         phones =
           (case Client_instance.phones client of
              Some loaded \<Rightarrow>
                map (\<lambda>p. VDict
                  [(''phone_id'', VInt (Phone.phone_id p)),
                   (''client_id'', VUUID (Phone.client_id p)),
                   (''number'', VStr (Phone.number p)),
                   (''created_at'', VDateTime (Phone.created_at p))]) loaded
            | None \<Rightarrow>
                map (\<lambda>p. VDict
                  [(''phone_id'', VInt (Phone.phone_id p)),
                   (''client_id'', VUUID (Phone.client_id p)),
                   (''number'', VStr (Phone.number p)),
                   (''created_at'', VDateTime (Phone.created_at p))])
                  (sort_key Phone.phone_id
                    (filter (\<lambda>p. Some (Phone.client_id p) = Client.client_id c) (PHONE db))));
         agent_obj =
           (case Client_instance.agent client of
              Some a \<Rightarrow> Some a
            | None \<Rightarrow>
                (case Client.agent_id c of
                   None \<Rightarrow> None
                 | Some k \<Rightarrow> get_Agent db k));
         agent_summary =
           (case agent_obj of
              None \<Rightarrow> VNone
            | Some a \<Rightarrow> VDict
                [(''agent_id'', opt VUUID (Agent.agent_id a)),
                 (''external_id'', opt VInt (Agent.external_id a)),
                 (''last_name'', opt VStr (Agent.last_name a)),
                 (''first_name'', opt VStr (Agent.first_name a)),
                 (''middle_name'', opt VStr (Agent.middle_name a))]);
         status_summary =
           (case Client.status_code c of
              None \<Rightarrow> VNone
            | Some code \<Rightarrow>
                if code = [] then VNone
                else (case get_Status db code of
                        None \<Rightarrow> VNone
                      | Some st \<Rightarrow> VDict
                          [(''status_code'', VStr (Status.status_code st)),
                           (''description'', VStr (Status.description st))]));
         stage_summary =
           (case Client.current_stage c of
              None \<Rightarrow> VNone
            | Some code \<Rightarrow>
                if code = [] then VNone
                else (case get_Stage db code of
                        None \<Rightarrow> VNone
                      | Some sg \<Rightarrow> VDict
                          [(''stage_code'', VStr (Stage.stage_code sg)),
                           (''description'', VStr (Stage.description sg))]));
         passports_list =
           (case Client_instance.passports client of
              Some loaded \<Rightarrow>
                map (\<lambda>ps. VDict
                  [(''passport_id'', VUUID (Passport.passport_id ps)),
                   (''client_id'', VUUID (Passport.client_id ps)),
                   (''full_name'', VStr (Passport.full_name ps)),
                   (''birth_place'', VStr (Passport.birth_place ps)),
                   (''series_number'', VStr (Passport.series_number ps)),
                   (''issued_by'', VStr (Passport.issued_by ps)),
                   (''issue_date'', VDate (Passport.issue_date ps)),
                   (''expiry_date'', opt VDate (Passport.expiry_date ps)),
                   (''registration_address'', VStr (Passport.registration_address ps)),
                   (''version'', VInt (Passport.version ps)),
                   (''created_at'', VDateTime (Passport.created_at ps))]) loaded
            | None \<Rightarrow>
                map (\<lambda>ps. VDict
                  [(''passport_id'', VUUID (Passport.passport_id ps)),
                   (''client_id'', VUUID (Passport.client_id ps)),
                   (''full_name'', VStr (Passport.full_name ps)),
                   (''birth_place'', VStr (Passport.birth_place ps)),
                   (''series_number'', VStr (Passport.series_number ps)),
                   (''issued_by'', VStr (Passport.issued_by ps)),
                   (''issue_date'', VDate (Passport.issue_date ps)),
                   (''expiry_date'', opt VDate (Passport.expiry_date ps)),
                   (''registration_address'', VStr (Passport.registration_address ps)),
                   (''version'', VInt (Passport.version ps)),
                   (''created_at'', VDateTime (Passport.created_at ps))])
                  (filter (\<lambda>ps. Some (Passport.client_id ps) = Client.client_id c)
                    (PASSPORT db)));
         snils_list =
           (case Client_instance.snils client of
              Some loaded \<Rightarrow>
                map (\<lambda>s. VDict
                  [(''snils_id'', VUUID (Snils.snils_id s)),
                   (''client_id'', VUUID (Snils.client_id s)),
                   (''number'', VStr (Snils.number s)),
                   (''issued_date'', opt VDate (Snils.issued_date s)),
                   (''version'', VInt (Snils.version s)),
                   (''created_at'', VDateTime (Snils.created_at s))]) loaded
            | None \<Rightarrow>
                map (\<lambda>s. VDict
                  [(''snils_id'', VUUID (Snils.snils_id s)),
                   (''client_id'', VUUID (Snils.client_id s)),
                   (''number'', VStr (Snils.number s)),
                   (''issued_date'', opt VDate (Snils.issued_date s)),
                   (''version'', VInt (Snils.version s)),
                   (''created_at'', VDateTime (Snils.created_at s))])
                  (filter (\<lambda>s. Some (Snils.client_id s) = Client.client_id c) (SNILS db)))
     in [(''client_id'', opt VUUID (Client.client_id c)),
         (''external_id'', opt VInt (Client.external_id c)),
         (''last_name'', opt VStr (Client.last_name c)),
         (''first_name'', opt VStr (Client.first_name c)),
         (''middle_name'', opt VStr (Client.middle_name c)),
         (''status_code'', opt VStr (Client.status_code c)),
         (''current_stage'', opt VStr (Client.current_stage c)),
         (''agent_id'', opt VUUID (Client.agent_id c)),
         (''deadline'', opt VDateTime (Client.deadline c)),
         (''created_at'', opt VDateTime (Client.created_at c)),
         (''updated_at'', opt VDateTime (Client.updated_at c)),
         (''notes'', opt VStr (Client.notes c)),
         (''agent'', agent_summary),
         (''status'', status_summary),
         (''stage'', stage_summary),
         (''phones'', VList phones),
         (''passports'', VList passports_list),
         (''snils'', VList snils_list)])"

text \<open>
  A mapped instance as the session hands it over: each relationship holds the rows its
  own \<^verbatim>\<open>SELECT\<close> (by \<^verbatim>\<open>selectinload\<close>, or on first access) returns, none of them ordered.
\<close>

definition selectinload :: "DB \<Rightarrow> Client \<Rightarrow> Client_instance" where
  "selectinload db c =
     \<lparr>columns = c,
      phones = Some (filter (\<lambda>p. Some (Phone.client_id p) = Client.client_id c) (PHONE db)),
      agent = (case Client.agent_id c of None \<Rightarrow> None | Some k \<Rightarrow> get_Agent db k),
      passports =
        Some (filter (\<lambda>ps. Some (Passport.client_id ps) = Client.client_id c) (PASSPORT db)),
      snils = Some (filter (\<lambda>s. Some (Snils.client_id s) = Client.client_id c) (SNILS db))\<rparr>"



section \<open>Clients\<close>

text \<open>The value of \<^verbatim>\<open>x or ""\<close> for an optional string.\<close>

definition or_empty :: "string option \<Rightarrow> string" where
  "or_empty v = (case v of None \<Rightarrow> [] | Some s \<Rightarrow> if s = [] then [] else s)"

text \<open>
  The \<^verbatim>\<open>INSERT\<close> a flush emits for a new Client: \<^verbatim>\<open>gen_uuid\<close> gives the key
  (\<open>new_id\<close>), the sequence the external id, \<^verbatim>\<open>now()\<close> both timestamps.
\<close>

definition insert_Client :: "DB \<Rightarrow> Client \<Rightarrow> UUID \<Rightarrow> datetime \<Rightarrow> DB \<times> (error + Client)" where
  "insert_Client db client new_id now =
     (case nextval bigint_max (client_external_id_seq db) of
        None \<Rightarrow> (db, Inl DataError)
      | Some (n, s) \<Rightarrow>
          (let row = client\<lparr>Client.client_id := Some new_id, Client.external_id := Some n,
                            Client.created_at := Some now, Client.updated_at := Some now\<rparr>;
               db1 = db\<lparr>client_external_id_seq := s\<rparr>
           in case Client_violation db1 (CLIENT db1) row of
                Some e \<Rightarrow> (db1, Inl e)
              | None \<Rightarrow> (db1\<lparr>CLIENT := CLIENT db1 @ [row]\<rparr>, Inr row)))"

text \<open>The \<^verbatim>\<open>INSERT\<close>s for the pending Phone objects, in the order they were added.\<close>

fun insert_Phones :: "DB \<Rightarrow> (UUID \<times> string) list \<Rightarrow> datetime \<Rightarrow> DB \<times> (error + unit)" where
  "insert_Phones db [] now = (db, Inr ())"
| "insert_Phones db ((cid, num) # rest) now =
     (case nextval integer_max (phone_id_seq db) of
        None \<Rightarrow> (db, Inl DataError)
      | Some (n, s) \<Rightarrow>
          (let row = \<lparr>Phone.phone_id = n, client_id = cid, number = num, created_at = now\<rparr>;
               db1 = db\<lparr>phone_id_seq := s\<rparr>
           in case Phone_violation db1 row of
                Some e \<Rightarrow> (db1, Inl e)
              | None \<Rightarrow> insert_Phones (db1\<lparr>PHONE := PHONE db1 @ [row]\<rparr>) rest now))"

text \<open>
  \<^verbatim>\<open>create_client\<close>. Nothing is committed before \<^verbatim>\<open>db.commit()\<close> returns: a failed
  flush or commit leaves the tables as they were (through \<^verbatim>\<open>db.rollback()\<close> for an
  \<^verbatim>\<open>IntegrityError\<close>, through the end of the session for any other error).
\<close>

definition create_client ::
    "DB \<Rightarrow> ClientCreate \<Rightarrow> UUID \<Rightarrow> datetime \<Rightarrow> DB \<times> (error + (string \<times> pyval) list)" where
  "create_client db client_in new_id now =
     (case get_Agent db (ClientCreate.agent_id client_in) of
        None \<Rightarrow> (db, Inl (ValueError_agent_not_found (ClientCreate.agent_id client_in)))
      | Some agent_exists \<Rightarrow>
          (let client =
                 \<lparr>Client.client_id = None, external_id = None,
                  last_name = Some (ClientCreate.last_name client_in),
                  first_name = Some (ClientCreate.first_name client_in),
                  middle_name = Some (or_empty (ClientCreate.middle_name client_in)),
                  status_code = Some (ClientCreate.status_code client_in),
                  current_stage = Some (ClientCreate.current_stage client_in),
                  agent_id = Some (ClientCreate.agent_id client_in),
                  deadline = ClientCreate.deadline client_in,
                  created_at = None, updated_at = None,
                  notes = ClientCreate.notes client_in\<rparr>
           in case insert_Client db client new_id now of
                (db1, Inl e) \<Rightarrow> (rollback db db1, Inl e)
              | (db1, Inr row) \<Rightarrow>
                  (case insert_Phones db1
                          (map (\<lambda>p. (new_id, PhoneCreate.number p))
                             (case ClientCreate.phones client_in of None \<Rightarrow> [] | Some l \<Rightarrow> l))
                          now of
                     (db2, Inl e) \<Rightarrow> (rollback db db2, Inl e)
                   | (db2, Inr u) \<Rightarrow> (db2, Inr (client_to_dict db2 (selectinload db2 row))))))"

definition get_client :: "DB \<Rightarrow> UUID \<Rightarrow> (string \<times> pyval) list option" where
  "get_client db client_id' =
     (case find (\<lambda>c. Client.client_id c = Some client_id') (CLIENT db) of
        None \<Rightarrow> None
      | Some client \<Rightarrow> Some (client_to_dict db (selectinload db client)))"

subsection \<open>Listing with filters\<close>


text \<open>Case folding of the letters A to Z, and \<^verbatim>\<open>ILIKE\<close> as \<^verbatim>\<open>LIKE\<close> on folded text.\<close>

definition lower :: "char \<Rightarrow> char" where
  "lower ch = (let n = (of_char ch :: nat) in if 65 \<le> n \<and> n \<le> 90 then char_of (n + 32) else ch)"


text \<open>\<^verbatim>\<open>ORDER BY external_id\<close>, ascending, rows without a value last.\<close>

definition order_by_external_id :: "Client list \<Rightarrow> Client list" where
  "order_by_external_id rows =
     sort_key (\<lambda>c. the (Client.external_id c)) (filter (\<lambda>c. Client.external_id c \<noteq> None) rows)
     @ filter (\<lambda>c. Client.external_id c = None) rows"





definition wildcard_free :: "string \<Rightarrow> bool" where
  "wildcard_free q = list_all (\<lambda>ch. ch \<noteq> CHR ''%'' \<and> ch \<noteq> CHR ''_'' \<and> ch \<noteq> CHR 0x5C) q"


subsection \<open>Partial update\<close>
















subsection \<open>Deletion\<close>

text \<open>
  \<^verbatim>\<open>delete_client\<close>: the \<^verbatim>\<open>DELETE\<close> of the Client row; the five foreign keys with
  \<^verbatim>\<open>ondelete="CASCADE"\<close> take the rows that reference it (the relationships have
  \<^verbatim>\<open>passive_deletes=True\<close>).
\<close>

definition delete_client :: "DB \<Rightarrow> UUID \<Rightarrow> DB \<times> bool" where
  "delete_client db client_id' =
     (case get_Client db client_id' of
        None \<Rightarrow> (db, False)
      | Some client \<Rightarrow>
          (db\<lparr>CLIENT := filter (\<lambda>c. Client.client_id c \<noteq> Some client_id') (CLIENT db),
              DOCUMENT := filter (\<lambda>r. Document.client_id r \<noteq> client_id') (DOCUMENT db),
              PHONE := filter (\<lambda>r. Phone.client_id r \<noteq> client_id') (PHONE db),
              PASSPORT := filter (\<lambda>r. Passport.client_id r \<noteq> client_id') (PASSPORT db),
              SNILS := filter (\<lambda>r. Snils.client_id r \<noteq> client_id') (SNILS db),
              REMINDER := filter (\<lambda>r. Reminder.client_id r \<noteq> client_id') (REMINDER db)\<rparr>,
           True))"

section \<open>Agents\<close>

definition agent_to_dict :: "Agent \<Rightarrow> (string \<times> pyval) list" where
  "agent_to_dict agent' =
     [(''agent_id'', opt VUUID (Agent.agent_id agent')),
      (''external_id'', opt VInt (Agent.external_id agent')),
      (''last_name'', opt VStr (Agent.last_name agent')),
      (''first_name'', opt VStr (Agent.first_name agent')),
      (''middle_name'', opt VStr (Agent.middle_name agent')),
      (''legal_address'', opt VStr (Agent.legal_address agent')),
      (''actual_address'', opt VStr (Agent.actual_address agent')),
      (''inn'', opt VStr (Agent.inn agent')),
      (''ogrnip'', opt VStr (Agent.ogrnip agent')),
      (''account_number'', opt VStr (Agent.account_number agent')),
      (''correspondent_account'', opt VStr (Agent.correspondent_account agent')),
      (''bic'', opt VStr (Agent.bic agent'))]"

definition Agent_violation :: "Agent list \<Rightarrow> Agent \<Rightarrow> error option" where
  "Agent_violation others r =
     (if too_long 128 (Agent.last_name r) \<or> too_long 128 (Agent.first_name r)
         \<or> too_long 128 (Agent.middle_name r) \<or> too_long 12 (Agent.inn r)
         \<or> too_long 15 (Agent.ogrnip r) \<or> too_long 34 (Agent.account_number r)
         \<or> too_long 34 (Agent.correspondent_account r) \<or> too_long 9 (Agent.bic r)
         \<or> out_of_bigint (Agent.external_id r)
      then Some DataError
      else if Agent.agent_id r = None \<or> Agent.external_id r = None
         \<or> Agent.last_name r = None \<or> Agent.first_name r = None
         \<or> Agent.legal_address r = None \<or> Agent.actual_address r = None
         \<or> Agent.inn r = None \<or> Agent.ogrnip r = None \<or> Agent.account_number r = None
         \<or> Agent.correspondent_account r = None \<or> Agent.bic r = None
      then Some IntegrityError
      else if Agent.agent_id r \<in> set (map Agent.agent_id others)
         \<or> Agent.external_id r \<in> set (map Agent.external_id others)
      then Some IntegrityError
      else None)"

definition insert_Agent :: "DB \<Rightarrow> Agent \<Rightarrow> UUID \<Rightarrow> DB \<times> (error + Agent)" where
  "insert_Agent db agent' new_id =
     (case nextval bigint_max (agent_external_id_seq db) of
        None \<Rightarrow> (db, Inl DataError)
      | Some (n, s) \<Rightarrow>
          (let row = agent'\<lparr>Agent.agent_id := Some new_id, Agent.external_id := Some n\<rparr>;
               db1 = db\<lparr>agent_external_id_seq := s\<rparr>
           in case Agent_violation (AGENT db1) row of
                Some e \<Rightarrow> (db1, Inl e)
              | None \<Rightarrow> (db1\<lparr>AGENT := AGENT db1 @ [row]\<rparr>, Inr row)))"

definition create_agent ::
    "DB \<Rightarrow> AgentCreate \<Rightarrow> UUID \<Rightarrow> DB \<times> (error + (string \<times> pyval) list)" where
  "create_agent db agent_in new_id =
     (let corr_account =
            (case AgentCreate.correspondent_account agent_in of
               None \<Rightarrow> AgentCreate.account_number agent_in
             | Some a \<Rightarrow> if a = [] then AgentCreate.account_number agent_in else a);
          agent' =
            \<lparr>Agent.agent_id = None, external_id = None,
             last_name = Some (AgentCreate.last_name agent_in),
             first_name = Some (or_empty (AgentCreate.first_name agent_in)),
             middle_name = Some (or_empty (AgentCreate.middle_name agent_in)),
             legal_address = Some (AgentCreate.legal_address agent_in),
             actual_address = Some (AgentCreate.actual_address agent_in),
             inn = Some (AgentCreate.inn agent_in),
             ogrnip = Some (AgentCreate.ogrnip agent_in),
             account_number = Some (AgentCreate.account_number agent_in),
             correspondent_account = Some corr_account,
             bic = Some (AgentCreate.bic agent_in)\<rparr>
      in case insert_Agent db agent' new_id of
           (db1, Inl e) \<Rightarrow> (rollback db db1, Inl e)
         | (db1, Inr row) \<Rightarrow> (db1, Inr (agent_to_dict row)))"

definition delete_agent :: "DB \<Rightarrow> UUID \<Rightarrow> DB \<times> (error + bool)" where
  "delete_agent db agent_id' =
     (case get_Agent db agent_id' of
        None \<Rightarrow> (db, Inr False)
      | Some agent' \<Rightarrow>
          (let cnt = length (filter (\<lambda>c. Client.agent_id c = Some agent_id') (CLIENT db))
           in if cnt > 0 then (db, Inl ValueError_agent_has_linked_clients)
              else (db\<lparr>AGENT := filter (\<lambda>a. Agent.agent_id a \<noteq> Some agent_id') (AGENT db)\<rparr>,
                    Inr True)))"

section \<open>Passports\<close>

definition Passport_violation :: "DB \<Rightarrow> Passport \<Rightarrow> error option" where
  "Passport_violation db r =
     (if 20 < length (Passport.series_number r) \<or> too_long 7 (Passport.department_code r)
      then Some DataError
      else if Passport.passport_id r \<in> set (map Passport.passport_id (PASSPORT db))
      then Some IntegrityError
      else if get_Client db (Passport.client_id r) = None then Some IntegrityError
      else None)"

definition create_passport ::
    "DB \<Rightarrow> UUID \<Rightarrow> PassportCreate \<Rightarrow> UUID \<Rightarrow> datetime \<Rightarrow> DB \<times> (error + Passport)" where
  "create_passport db client_id' passport_in new_id now =
     (case get_Client db client_id' of
        None \<Rightarrow> (db, Inl ValueError_client_not_found)
      | Some client \<Rightarrow>
          (let passport =
                 \<lparr>Passport.passport_id = new_id, client_id = client_id',
                  full_name = PassportCreate.full_name passport_in,
                  birth_date = PassportCreate.birth_date passport_in,
                  birth_place = PassportCreate.birth_place passport_in,
                  series_number = PassportCreate.series_number passport_in,
                  issued_by = PassportCreate.issued_by passport_in,
                  issue_date = PassportCreate.issue_date passport_in,
                  department_code = PassportCreate.department_code passport_in,
                  expiry_date = PassportCreate.expiry_date passport_in,
                  registration_address = PassportCreate.registration_address passport_in,
                  version = 1, created_at = now\<rparr>
           in case Passport_violation db passport of
                Some e \<Rightarrow> (db, Inl e)
              | None \<Rightarrow> (db\<lparr>PASSPORT := PASSPORT db @ [passport]\<rparr>, Inr passport)))"

section \<open>The migration that adds the external ids\<close>






section \<open>Histories\<close>







section \<open>Example states\<close>

text \<open>
  A small store used to run the operations on concrete inputs: one agent, one status
  and one stage, one client with one phone. Its phone sequence is behind the stored
  phone (as after an import with explicit keys), so the next phone insert collides.
\<close>

definition example_agent :: Agent where
  "example_agent =
     \<lparr>Agent.agent_id = Some 1, external_id = Some 1, last_name = Some ''Smith'',
      first_name = Some ''Jane'', middle_name = Some [], legal_address = Some ''A'',
      actual_address = Some ''A'', inn = Some ''1234567890'',
      ogrnip = Some ''123456789012345'', account_number = Some ''12345678901234567890'',
      correspondent_account = Some ''12345678901234567890'', bic = Some ''123456789''\<rparr>"

definition example_client :: Client where
  "example_client =
     \<lparr>Client.client_id = Some 3, external_id = Some 1, last_name = Some ''Ivanov'',
      first_name = Some ''Ivan'', middle_name = Some [], status_code = Some ''WORKING'',
      current_stage = Some ''INTAKE'', agent_id = Some 1, deadline = None,
      created_at = Some 50, updated_at = Some 50, notes = None\<rparr>"

definition example_phone :: Phone where
  "example_phone = \<lparr>Phone.phone_id = 1, client_id = 3, number = ''+1000'', created_at = 50\<rparr>"

definition example_db :: DB where
  "example_db =
     \<lparr>AGENT = [example_agent],
      STATUS = [\<lparr>Status.status_code = ''WORKING'', description = ''In work''\<rparr>],
      STAGE = [\<lparr>Stage.stage_code = ''INTAKE'', description = ''Intake''\<rparr>],
      CLIENT = [example_client], DOCUMENT = [], PHONE = [example_phone], PASSPORT = [], SNILS = [],
      REMINDER = [], agent_external_id_seq = 2, client_external_id_seq = 2,
      phone_id_seq = 1\<rparr>"

definition example_client_in :: ClientCreate where
  "example_client_in =
     \<lparr>ClientCreate.last_name = ''Petrov'', first_name = ''Petr'', middle_name = None,
      status_code = ''WORKING'', current_stage = ''INTAKE'', agent_id = 1, deadline = None,
      notes = None, phones = Some [\<lparr>PhoneCreate.number = ''+2000''\<rparr>]\<rparr>"

text \<open>
  The same store with a second client and with one row in each table a client owns.
\<close>

definition example_full_db :: DB where
  "example_full_db =
     example_db
       \<lparr>CLIENT := [example_client,
                   example_client\<lparr>Client.client_id := Some 4, Client.external_id := Some 2\<rparr>],
        DOCUMENT := [\<lparr>Document.document_id = 20, client_id = 3, type_code = ''SCAN'',
                      filename = ''a.pdf'', object_key = ''k/a.pdf'', version = 1,
                      uploaded_at = 60\<rparr>],
        PHONE := [example_phone,
                  \<lparr>Phone.phone_id = 2, client_id = 4, number = ''+1001'', created_at = 55\<rparr>],
        PASSPORT := [\<lparr>Passport.passport_id = 30, client_id = 3, full_name = ''Ivanov Ivan'',
                      birth_date = Some 19900101, birth_place = ''Moscow'',
                      series_number = ''4510 123456'', issued_by = ''OVD'',
                      issue_date = 20100101, department_code = Some ''770-001'',
                      expiry_date = None, registration_address = ''Moscow'', version = 1,
                      created_at = 60\<rparr>],
        SNILS := [\<lparr>Snils.snils_id = 40, client_id = 3, number = ''112-233-445 95'',
                   issued_date = None, version = 1, created_at = 60\<rparr>],
        REMINDER := [\<lparr>Reminder.reminder_id = 50, client_id = 3, service_stage = ''INTAKE'',
                      remind_at = 500, created_at = 60\<rparr>],
        phone_id_seq := 3, client_external_id_seq := 3\<rparr>"

text \<open>
  A store whose STATUS table has a row with the empty code, and a client with that
  status.
\<close>

definition example_blank_client :: Client where
  "example_blank_client = example_client\<lparr>Client.status_code := Some []\<rparr>"

definition example_blank_db :: DB where
  "example_blank_db =
     example_db
       \<lparr>STATUS := [\<lparr>Status.status_code = ''WORKING'', description = ''In work''\<rparr>,
                   \<lparr>Status.status_code = [], description = ''Blank''\<rparr>],
        CLIENT := [example_blank_client]\<rparr>"

definition example_agent_in :: AgentCreate where
  "example_agent_in =
     \<lparr>AgentCreate.last_name = ''Brown'', first_name = None, middle_name = None,
      legal_address = ''B'', actual_address = ''B'', inn = ''1234567890'',
      ogrnip = ''123456789012345'', account_number = ''12345678901234567890'',
      correspondent_account = None, bic = ''123456789''\<rparr>"

definition example_passport_in :: PassportCreate where
  "example_passport_in =
     \<lparr>PassportCreate.full_name = ''Ivanov Ivan'', birth_date = Some 19900101,
      birth_place = ''Moscow'', series_number = ''4510 123456'', issued_by = ''OVD'',
      issue_date = 20100101, department_code = Some ''770-001'', expiry_date = None,
      registration_address = ''Moscow''\<rparr>"


section \<open>Properties\<close>

lemma rollback_tables [simp]:
  "CLIENT (rollback db0 db1) = CLIENT db0"
  "PHONE (rollback db0 db1) = PHONE db0"
  "AGENT (rollback db0 db1) = AGENT db0"
  by (simp_all add: rollback_def)

lemma insert_Client_tables:
  "insert_Client db client new_id now = (db1, r) \<Longrightarrow>
     PHONE db1 = PHONE db \<and> AGENT db1 = AGENT db \<and>
     (case r of Inl e \<Rightarrow> CLIENT db1 = CLIENT db
      | Inr row \<Rightarrow> CLIENT db1 = CLIENT db @ [row] \<and> Client.client_id row = Some new_id)"
  by (auto simp: insert_Client_def Let_def split: option.splits prod.splits)

lemma insert_Phones_tables:
  "insert_Phones db xs now = (db2, Inr u) \<Longrightarrow>
     CLIENT db2 = CLIENT db \<and>
     (\<exists>rows. PHONE db2 = PHONE db @ rows \<and>
        map (\<lambda>p. (Phone.client_id p, Phone.number p)) rows = xs)"
proof (induction db xs now arbitrary: db2 rule: insert_Phones.induct)
  case (1 db now)
  then show ?case by simp
next
  case (2 db cid num rest now)
  then show ?case
    by (fastforce simp: Let_def split: option.splits prod.splits)
qed

text \<open>
  C1. \<^verbatim>\<open>create_client\<close> with an agent id that names no agent fails with the
  agent-not-found \<^verbatim>\<open>ValueError\<close> and leaves the store as it is; whenever it fails, the
  CLIENT and PHONE tables are what they were before the call; when it succeeds, the new
  Client row and one Phone row per supplied number, each carrying the new client id,
  are there together.
\<close>

theorem create_client_all_or_nothing:
  "(get_Agent db (ClientCreate.agent_id client_in) = None \<longrightarrow>
      create_client db client_in new_id now =
        (db, Inl (ValueError_agent_not_found (ClientCreate.agent_id client_in))))
   \<and> (\<forall>db' e. create_client db client_in new_id now = (db', Inl e) \<longrightarrow>
         CLIENT db' = CLIENT db \<and> PHONE db' = PHONE db)
   \<and> (\<forall>db' d. create_client db client_in new_id now = (db', Inr d) \<longrightarrow>
         (\<exists>row rows. CLIENT db' = CLIENT db @ [row] \<and> Client.client_id row = Some new_id
            \<and> PHONE db' = PHONE db @ rows
            \<and> map (\<lambda>p. (Phone.client_id p, Phone.number p)) rows =
                map (\<lambda>p. (new_id, PhoneCreate.number p))
                  (case ClientCreate.phones client_in of None \<Rightarrow> [] | Some l \<Rightarrow> l)))"
proof (intro conjI allI impI)
  assume "get_Agent db (ClientCreate.agent_id client_in) = None"
  then show "create_client db client_in new_id now =
        (db, Inl (ValueError_agent_not_found (ClientCreate.agent_id client_in)))"
    by (simp add: create_client_def)
next
  fix db' e
  assume "create_client db client_in new_id now = (db', Inl e)"
  then show "CLIENT db' = CLIENT db"
    by (auto simp: create_client_def Let_def split: option.splits prod.splits sum.splits)
next
  fix db' e
  assume "create_client db client_in new_id now = (db', Inl e)"
  then show "PHONE db' = PHONE db"
    by (auto simp: create_client_def Let_def split: option.splits prod.splits sum.splits)
next
  fix db' d
  assume a: "create_client db client_in new_id now = (db', Inr d)"
  then obtain db1 row where
    i: "insert_Client db
           \<lparr>Client.client_id = None, external_id = None,
                  last_name = Some (ClientCreate.last_name client_in),
                  first_name = Some (ClientCreate.first_name client_in),
                  middle_name = Some (or_empty (ClientCreate.middle_name client_in)),
                  status_code = Some (ClientCreate.status_code client_in),
                  current_stage = Some (ClientCreate.current_stage client_in),
                  agent_id = Some (ClientCreate.agent_id client_in),
                  deadline = ClientCreate.deadline client_in,
                  created_at = None, updated_at = None,
                  notes = ClientCreate.notes client_in\<rparr> new_id now = (db1, Inr row)"
    and p: "insert_Phones db1 (map (\<lambda>p. (new_id, PhoneCreate.number p))
                  (case ClientCreate.phones client_in of None \<Rightarrow> [] | Some l \<Rightarrow> l)) now = (db', Inr ())"
    by (auto simp: create_client_def Let_def split: option.splits prod.splits sum.splits)
  from insert_Client_tables[OF i] insert_Phones_tables[OF p]
  show "\<exists>row rows. CLIENT db' = CLIENT db @ [row] \<and> Client.client_id row = Some new_id
            \<and> PHONE db' = PHONE db @ rows
            \<and> map (\<lambda>p. (Phone.client_id p, Phone.number p)) rows =
                map (\<lambda>p. (new_id, PhoneCreate.number p))
                  (case ClientCreate.phones client_in of None \<Rightarrow> [] | Some l \<Rightarrow> l)"
    by auto
qed

theorem create_client_all_or_nothing_witness:
  "create_client example_db (example_client_in\<lparr>ClientCreate.agent_id := 9\<rparr>) 7 100 =
     (example_db, Inl (ValueError_agent_not_found 9))
   \<and> snd (create_client example_db example_client_in 7 100) = Inl IntegrityError
   \<and> CLIENT (fst (create_client example_db example_client_in 7 100)) = [example_client]
   \<and> PHONE (fst (create_client example_db example_client_in 7 100)) = [example_phone]
   \<and> \<not> isl (snd (create_client (example_db\<lparr>phone_id_seq := 2\<rparr>) example_client_in 7 100))
   \<and> map Client.client_id
        (CLIENT (fst (create_client (example_db\<lparr>phone_id_seq := 2\<rparr>) example_client_in 7 100))) =
      [Some 3, Some 7]
   \<and> map (\<lambda>p. (Phone.client_id p, Phone.number p))
        (PHONE (fst (create_client (example_db\<lparr>phone_id_seq := 2\<rparr>) example_client_in 7 100))) =
      [(3, ''+1000''), (7, ''+2000'')]"
proof -
  have a: "get_Agent example_db (ClientCreate.agent_id (example_client_in\<lparr>ClientCreate.agent_id := 9\<rparr>)) = None"
    by (simp add: get_Agent_def example_db_def example_agent_def)
  have b: "create_client example_db example_client_in 7 100 =
      (example_db\<lparr>client_external_id_seq := 3, phone_id_seq := 2\<rparr>, Inl IntegrityError)"
    by (simp add: create_client_def insert_Client_def nextval_def bigint_max_def integer_max_def
  Client_violation_def Phone_violation_def get_Agent_def get_Client_def get_Status_def get_Stage_def
  too_long_def out_of_bigint_def or_empty_def rollback_def Let_def
  example_db_def example_agent_def example_client_def example_phone_def example_client_in_def)
  obtain db' d where c: "create_client (example_db\<lparr>phone_id_seq := 2\<rparr>) example_client_in 7 100 = (db', Inr d)"
    by (simp add: create_client_def insert_Client_def nextval_def bigint_max_def integer_max_def
  Client_violation_def Phone_violation_def get_Agent_def get_Client_def get_Status_def get_Stage_def
  too_long_def out_of_bigint_def or_empty_def rollback_def Let_def
  example_db_def example_agent_def example_client_def example_phone_def example_client_in_def)
  note t1 = create_client_all_or_nothing[of example_db "example_client_in\<lparr>ClientCreate.agent_id := 9\<rparr>" 7 100]
  note t2 = create_client_all_or_nothing[of example_db example_client_in 7 100]
  note t3 = create_client_all_or_nothing[of "example_db\<lparr>phone_id_seq := 2\<rparr>" example_client_in 7 100]
  from t1 a have 1: "create_client example_db (example_client_in\<lparr>ClientCreate.agent_id := 9\<rparr>) 7 100 =
     (example_db, Inl (ValueError_agent_not_found 9))" by simp
  from t2 b have 2: "CLIENT (fst (create_client example_db example_client_in 7 100)) = CLIENT example_db
     \<and> PHONE (fst (create_client example_db example_client_in 7 100)) = PHONE example_db"
    by simp
  from t3 c obtain row rows where 3: "CLIENT db' = CLIENT example_db @ [row]" "Client.client_id row = Some 7"
     "PHONE db' = PHONE example_db @ rows" "map (\<lambda>p. (Phone.client_id p, Phone.number p)) rows = [(7, ''+2000'')]"
    by (auto simp: example_client_in_def)
  have t: "CLIENT example_db = [example_client]" "PHONE example_db = [example_phone]"
    by (simp_all add: example_db_def)
  have e: "Client.client_id example_client = Some 3" "Phone.client_id example_phone = 3"
    "Phone.number example_phone = ''+1000''"
    by (simp_all add: example_client_def example_phone_def)
  show ?thesis using 1 2 3 b c by (simp add: t e)
qed

text \<open>
  C4. \<^verbatim>\<open>delete_agent\<close> on an agent that a Client references raises the
  linked-clients \<^verbatim>\<open>ValueError\<close> and returns the store it was given: no row of any
  table is changed and nothing is cascaded.
\<close>

theorem delete_agent_refuses_referenced:
  "get_Agent db k = Some a \<Longrightarrow> c \<in> set (CLIENT db) \<Longrightarrow> Client.agent_id c = Some k \<Longrightarrow>
     delete_agent db k = (db, Inl ValueError_agent_has_linked_clients)"
proof -
  assume a: "get_Agent db k = Some a" and c: "c \<in> set (CLIENT db)" "Client.agent_id c = Some k"
  from c have "c \<in> set (filter (\<lambda>c. Client.agent_id c = Some k) (CLIENT db))" by simp
  then have "0 < length (filter (\<lambda>c. Client.agent_id c = Some k) (CLIENT db))"
    by (metis length_pos_if_in_set)
  with a show ?thesis by (simp add: delete_agent_def)
qed

theorem delete_agent_refuses_referenced_witness:
  "delete_agent example_db 1 = (example_db, Inl ValueError_agent_has_linked_clients)"
proof -
  have a: "get_Agent example_db 1 = Some example_agent"
    by (simp add: get_Agent_def example_db_def example_agent_def)
  have c: "example_client \<in> set (CLIENT example_db)" by (simp add: example_db_def)
  have d: "Client.agent_id example_client = Some 1" by (simp add: example_client_def)
  show ?thesis by (rule delete_agent_refuses_referenced[OF a c d])
qed

lemma find_filter_None: "find P (filter (\<lambda>x. \<not> P x) xs) = None"
  by (induction xs) auto

text \<open>
  C5. \<^verbatim>\<open>delete_client\<close> on an existing Client returns \<open>True\<close> and removes the
  Client row and exactly the Phone, Passport, Snils, Document and Reminder rows that
  reference it, so that no row of these tables carries the deleted client id; on an id
  that names no Client it returns \<open>False\<close> and the store is unchanged.
\<close>

theorem delete_client_cascades:
  "(get_Client db k = Some c \<longrightarrow>
      snd (delete_client db k) = True
      \<and> get_Client (fst (delete_client db k)) k = None
      \<and> CLIENT (fst (delete_client db k)) = filter (\<lambda>r. Client.client_id r \<noteq> Some k) (CLIENT db)
      \<and> PHONE (fst (delete_client db k)) = filter (\<lambda>r. Phone.client_id r \<noteq> k) (PHONE db)
      \<and> PASSPORT (fst (delete_client db k)) = filter (\<lambda>r. Passport.client_id r \<noteq> k) (PASSPORT db)
      \<and> SNILS (fst (delete_client db k)) = filter (\<lambda>r. Snils.client_id r \<noteq> k) (SNILS db)
      \<and> DOCUMENT (fst (delete_client db k)) = filter (\<lambda>r. Document.client_id r \<noteq> k) (DOCUMENT db)
      \<and> REMINDER (fst (delete_client db k)) = filter (\<lambda>r. Reminder.client_id r \<noteq> k) (REMINDER db)
      \<and> k \<notin> Phone.client_id ` set (PHONE (fst (delete_client db k)))
      \<and> k \<notin> Passport.client_id ` set (PASSPORT (fst (delete_client db k)))
      \<and> k \<notin> Snils.client_id ` set (SNILS (fst (delete_client db k)))
      \<and> k \<notin> Document.client_id ` set (DOCUMENT (fst (delete_client db k)))
      \<and> k \<notin> Reminder.client_id ` set (REMINDER (fst (delete_client db k))))
   \<and> (get_Client db k = None \<longrightarrow> delete_client db k = (db, False))"
  by (auto simp: delete_client_def get_Client_def find_filter_None)

theorem delete_client_cascades_witness:
  "snd (delete_client example_full_db 3) = True
   \<and> map Client.client_id (CLIENT (fst (delete_client example_full_db 3))) = [Some 4]
   \<and> map Phone.phone_id (PHONE (fst (delete_client example_full_db 3))) = [2]
   \<and> PASSPORT (fst (delete_client example_full_db 3)) = []
   \<and> SNILS (fst (delete_client example_full_db 3)) = []
   \<and> DOCUMENT (fst (delete_client example_full_db 3)) = []
   \<and> REMINDER (fst (delete_client example_full_db 3)) = []
   \<and> delete_client example_full_db 9 = (example_full_db, False)"
proof -
  have a: "get_Client example_full_db 3 = Some example_client"
    by (simp add: get_Client_def example_full_db_def example_db_def example_client_def)
  have b: "get_Client example_full_db 9 = None"
    by (simp add: get_Client_def example_full_db_def example_db_def example_client_def)
  note t3 = delete_client_cascades[of example_full_db 3 example_client]
  note t9 = delete_client_cascades[of example_full_db 9 example_client]
  from t3 a have
    "snd (delete_client example_full_db 3) = True"
    "CLIENT (fst (delete_client example_full_db 3)) =
       filter (\<lambda>r. Client.client_id r \<noteq> Some 3) (CLIENT example_full_db)"
    "PHONE (fst (delete_client example_full_db 3)) =
       filter (\<lambda>r. Phone.client_id r \<noteq> 3) (PHONE example_full_db)"
    "PASSPORT (fst (delete_client example_full_db 3)) =
       filter (\<lambda>r. Passport.client_id r \<noteq> 3) (PASSPORT example_full_db)"
    "SNILS (fst (delete_client example_full_db 3)) =
       filter (\<lambda>r. Snils.client_id r \<noteq> 3) (SNILS example_full_db)"
    "DOCUMENT (fst (delete_client example_full_db 3)) =
       filter (\<lambda>r. Document.client_id r \<noteq> 3) (DOCUMENT example_full_db)"
    "REMINDER (fst (delete_client example_full_db 3)) =
       filter (\<lambda>r. Reminder.client_id r \<noteq> 3) (REMINDER example_full_db)"
    by simp_all
  moreover from t9 b have "delete_client example_full_db 9 = (example_full_db, False)" by simp
  ultimately show ?thesis
    by (simp add: example_full_db_def example_db_def example_client_def example_phone_def)
qed

text \<open>
  C9. Dossier assembly is total. The status summary is \<^verbatim>\<open>None\<close> when the Client's
  status code has no row in STATUS; when the code is not the empty string and has a
  row, the summary carries that row's code and description. The stage summary
  likewise, over STAGE. (An empty code is never looked up: \<^verbatim>\<open>if client.status_code:\<close>.)
\<close>

theorem status_stage_summaries:
  "(get_Status db code = None \<and> Client.status_code (Client_instance.columns client) = Some code \<longrightarrow>
      map_of (client_to_dict db client) ''status'' = Some VNone)
   \<and> (get_Status db code = Some st \<and> code \<noteq> []
        \<and> Client.status_code (Client_instance.columns client) = Some code \<longrightarrow>
      Status.status_code st = code
      \<and> map_of (client_to_dict db client) ''status'' =
          Some (VDict [(''status_code'', VStr (Status.status_code st)),
                       (''description'', VStr (Status.description st))]))
   \<and> (get_Stage db code = None \<and> Client.current_stage (Client_instance.columns client) = Some code \<longrightarrow>
      map_of (client_to_dict db client) ''stage'' = Some VNone)
   \<and> (get_Stage db code = Some sg \<and> code \<noteq> []
        \<and> Client.current_stage (Client_instance.columns client) = Some code \<longrightarrow>
      Stage.stage_code sg = code
      \<and> map_of (client_to_dict db client) ''stage'' =
          Some (VDict [(''stage_code'', VStr (Stage.stage_code sg)),
                       (''description'', VStr (Stage.description sg))]))"
proof (intro conjI impI)
  assume "get_Status db code = None \<and> Client.status_code (Client_instance.columns client) = Some code"
  then show "map_of (client_to_dict db client) ''status'' = Some VNone"
    by (simp add: client_to_dict_def Let_def)
next
  assume a: "get_Status db code = Some st \<and> code \<noteq> []
        \<and> Client.status_code (Client_instance.columns client) = Some code"
  then show "Status.status_code st = code"
    by (auto simp: get_Status_def find_Some_iff)
  from a show "map_of (client_to_dict db client) ''status'' =
          Some (VDict [(''status_code'', VStr (Status.status_code st)),
                       (''description'', VStr (Status.description st))])"
    by (simp add: client_to_dict_def Let_def)
next
  assume "get_Stage db code = None \<and> Client.current_stage (Client_instance.columns client) = Some code"
  then show "map_of (client_to_dict db client) ''stage'' = Some VNone"
    by (simp add: client_to_dict_def Let_def)
next
  assume a: "get_Stage db code = Some sg \<and> code \<noteq> []
        \<and> Client.current_stage (Client_instance.columns client) = Some code"
  then show "Stage.stage_code sg = code"
    by (auto simp: get_Stage_def find_Some_iff)
  from a show "map_of (client_to_dict db client) ''stage'' =
          Some (VDict [(''stage_code'', VStr (Stage.stage_code sg)),
                       (''description'', VStr (Stage.description sg))])"
    by (simp add: client_to_dict_def Let_def)
qed

theorem status_summary_counterexample:
  "get_Status example_blank_db [] = Some \<lparr>Status.status_code = [], description = ''Blank''\<rparr>
   \<and> Client.status_code example_blank_client = Some []
   \<and> get_client example_blank_db 3 =
       Some (client_to_dict example_blank_db (selectinload example_blank_db example_blank_client))
   \<and> map_of (client_to_dict example_blank_db (selectinload example_blank_db example_blank_client))
        ''status'' = Some VNone"
  by (simp add: get_Status_def get_client_def example_blank_db_def example_blank_client_def
      example_client_def example_db_def client_to_dict_def selectinload_def Let_def)

theorem status_stage_summaries_witness:
  "map_of (client_to_dict example_db (selectinload example_db example_client)) ''status'' =
     Some (VDict [(''status_code'', VStr ''WORKING''), (''description'', VStr ''In work'')])
   \<and> map_of (client_to_dict example_db (selectinload example_db example_client)) ''stage'' =
     Some (VDict [(''stage_code'', VStr ''INTAKE''), (''description'', VStr ''Intake'')])
   \<and> map_of (client_to_dict example_db
        (selectinload example_db
           (example_client\<lparr>Client.status_code := Some ''GONE'', Client.current_stage := Some ''GONE''\<rparr>)))
        ''status'' = Some VNone
   \<and> map_of (client_to_dict example_db
        (selectinload example_db
           (example_client\<lparr>Client.status_code := Some ''GONE'', Client.current_stage := Some ''GONE''\<rparr>)))
        ''stage'' = Some VNone"
proof -
  let ?st = "\<lparr>Status.status_code = ''WORKING'', description = ''In work''\<rparr>"
  let ?sg = "\<lparr>Stage.stage_code = ''INTAKE'', description = ''Intake''\<rparr>"
  let ?gone = "example_client\<lparr>Client.status_code := Some ''GONE'', Client.current_stage := Some ''GONE''\<rparr>"
  have s1: "get_Status example_db ''WORKING'' = Some ?st"
    and s2: "get_Stage example_db ''INTAKE'' = Some ?sg"
    and s3: "get_Status example_db ''GONE'' = None"
    and s4: "get_Stage example_db ''GONE'' = None"
    by (simp_all add: get_Status_def get_Stage_def example_db_def)
  have c1: "Client.status_code (Client_instance.columns (selectinload example_db example_client)) = Some ''WORKING''"
    and c2: "Client.current_stage (Client_instance.columns (selectinload example_db example_client)) = Some ''INTAKE''"
    and c3: "Client.status_code (Client_instance.columns (selectinload example_db ?gone)) = Some ''GONE''"
    and c4: "Client.current_stage (Client_instance.columns (selectinload example_db ?gone)) = Some ''GONE''"
    by (simp_all add: selectinload_def example_client_def)
  from status_stage_summaries[of example_db "''WORKING''" "selectinload example_db example_client" ?st ?sg] s1 c1
  have 1: "map_of (client_to_dict example_db (selectinload example_db example_client)) ''status'' =
     Some (VDict [(''status_code'', VStr ''WORKING''), (''description'', VStr ''In work'')])"
    by simp
  from status_stage_summaries[of example_db "''INTAKE''" "selectinload example_db example_client" ?st ?sg] s2 c2
  have 2: "map_of (client_to_dict example_db (selectinload example_db example_client)) ''stage'' =
     Some (VDict [(''stage_code'', VStr ''INTAKE''), (''description'', VStr ''Intake'')])"
    by simp
  from status_stage_summaries[of example_db "''GONE''" "selectinload example_db ?gone" ?st ?sg] s3 c3 s4 c4
  have 3: "map_of (client_to_dict example_db (selectinload example_db ?gone)) ''status'' = Some VNone"
    "map_of (client_to_dict example_db (selectinload example_db ?gone)) ''stage'' = Some VNone"
    by simp_all
  show ?thesis using 1 2 3 by simp
qed


lemma or_empty_None [simp]: "or_empty None = []"
  by (simp add: or_empty_def)

lemma insert_Client_row:
  "insert_Client db client new_id now = (db1, Inr row) \<Longrightarrow>
     Client.middle_name row = Client.middle_name client
     \<and> Client.client_id row = Some new_id
     \<and> (\<forall>x \<in> set (CLIENT db). Client.client_id x \<noteq> Some new_id)
     \<and> Client.external_id row = Some (client_external_id_seq db)
     \<and> client_external_id_seq db1 = client_external_id_seq db + 1"
  by (auto simp: insert_Client_def Let_def nextval_def Client_violation_def image_iff
      split: option.splits prod.splits if_splits)

lemma find_append_new:
  "\<forall>x \<in> set xs. \<not> P x \<Longrightarrow> P y \<Longrightarrow> find P (xs @ [y]) = Some y"
  by (induction xs) auto


lemma insert_Phones_CLIENT:
  "insert_Phones db xs now = (db2, r) \<Longrightarrow> CLIENT db2 = CLIENT db"
proof (induction db xs now arbitrary: db2 r rule: insert_Phones.induct)
  case (1 db now)
  then show ?case by simp
next
  case (2 db cid num rest now)
  then show ?case
    by (fastforce simp: Let_def split: option.splits prod.splits)
qed

text \<open>
  C10. When \<^verbatim>\<open>create_client\<close> succeeds on an input without a middle name, the stored
  row and the returned dossier hold the empty string (not \<^verbatim>\<open>None\<close>) as middle name,
  and \<^verbatim>\<open>get_client\<close> on the new id returns that same dossier. When \<^verbatim>\<open>create_agent\<close>
  succeeds, an absent first name and an absent middle name are each stored and returned
  as the empty string.
\<close>

theorem absent_names_stored_empty:
  "(create_client db client_in new_id now = (db', Inr d)
      \<and> ClientCreate.middle_name client_in = None \<longrightarrow>
        map_of d ''middle_name'' = Some (VStr [])
        \<and> (\<exists>row. get_Client db' new_id = Some row \<and> Client.middle_name row = Some [])
        \<and> get_client db' new_id = Some d)
   \<and> (create_agent db agent_in new_id = (db', Inr d) \<longrightarrow>
        (AgentCreate.first_name agent_in = None \<longrightarrow> map_of d ''first_name'' = Some (VStr []))
        \<and> (AgentCreate.middle_name agent_in = None \<longrightarrow> map_of d ''middle_name'' = Some (VStr []))
        \<and> (\<exists>row. AGENT db' = AGENT db @ [row] \<and> d = agent_to_dict row
              \<and> (AgentCreate.first_name agent_in = None \<longrightarrow> Agent.first_name row = Some [])
              \<and> (AgentCreate.middle_name agent_in = None \<longrightarrow> Agent.middle_name row = Some [])))"
proof (intro conjI impI)
  assume a: "create_client db client_in new_id now = (db', Inr d)
      \<and> ClientCreate.middle_name client_in = None"
  let ?client = "\<lparr>Client.client_id = None, external_id = None,
                  last_name = Some (ClientCreate.last_name client_in),
                  first_name = Some (ClientCreate.first_name client_in),
                  middle_name = Some (or_empty (ClientCreate.middle_name client_in)),
                  status_code = Some (ClientCreate.status_code client_in),
                  current_stage = Some (ClientCreate.current_stage client_in),
                  agent_id = Some (ClientCreate.agent_id client_in),
                  deadline = ClientCreate.deadline client_in,
                  created_at = None, updated_at = None,
                  notes = ClientCreate.notes client_in\<rparr>"
  from a obtain db1 row where
    i: "insert_Client db ?client new_id now = (db1, Inr row)"
    and p: "insert_Phones db1 (map (\<lambda>p. (new_id, PhoneCreate.number p))
                  (case ClientCreate.phones client_in of None \<Rightarrow> [] | Some l \<Rightarrow> l)) now = (db', Inr ())"
    and d: "d = client_to_dict db' (selectinload db' row)"
    by (auto simp: create_client_def Let_def split: option.splits prod.splits sum.splits)
  from insert_Client_row[OF i] a have m: "Client.middle_name row = Some []"
    and k: "Client.client_id row = Some new_id"
    and fresh: "\<forall>x \<in> set (CLIENT db). Client.client_id x \<noteq> Some new_id"
    by simp_all
  from insert_Client_tables[OF i] insert_Phones_CLIENT[OF p]
  have c: "CLIENT db' = CLIENT db @ [row]" by simp
  have f: "find (\<lambda>c. Client.client_id c = Some new_id) (CLIENT db') = Some row"
    unfolding c using fresh k by (intro find_append_new) auto
  show "map_of d ''middle_name'' = Some (VStr [])"
    using m by (simp add: d client_to_dict_def selectinload_def Let_def opt_def)
  show "\<exists>row. get_Client db' new_id = Some row \<and> Client.middle_name row = Some []"
    using f m by (simp add: get_Client_def)
  show "get_client db' new_id = Some d"
    using f by (simp add: get_client_def d)
next
  assume a: "create_agent db agent_in new_id = (db', Inr d)"
  then obtain row where r: "AGENT db' = AGENT db @ [row]" "d = agent_to_dict row"
    "Agent.first_name row = Some (or_empty (AgentCreate.first_name agent_in))"
    "Agent.middle_name row = Some (or_empty (AgentCreate.middle_name agent_in))"
    by (auto simp: create_agent_def insert_Agent_def Let_def
        split: option.splits prod.splits sum.splits)
  then show "AgentCreate.first_name agent_in = None \<Longrightarrow> map_of d ''first_name'' = Some (VStr [])"
    and "AgentCreate.middle_name agent_in = None \<Longrightarrow> map_of d ''middle_name'' = Some (VStr [])"
    by (simp_all add: agent_to_dict_def opt_def)
  from r show "\<exists>row. AGENT db' = AGENT db @ [row] \<and> d = agent_to_dict row
              \<and> (AgentCreate.first_name agent_in = None \<longrightarrow> Agent.first_name row = Some [])
              \<and> (AgentCreate.middle_name agent_in = None \<longrightarrow> Agent.middle_name row = Some [])"
    by auto
qed

theorem absent_names_stored_empty_witness:
  "(\<exists>db' d. create_client (example_db\<lparr>phone_id_seq := 2\<rparr>) example_client_in 7 100 = (db', Inr d)
       \<and> map_of d ''middle_name'' = Some (VStr [])
       \<and> get_client db' 7 = Some d)
   \<and> (\<exists>db' d. create_agent example_db example_agent_in 8 = (db', Inr d)
       \<and> map_of d ''first_name'' = Some (VStr [])
       \<and> map_of d ''middle_name'' = Some (VStr []))"
proof -
  obtain db' d where c: "create_client (example_db\<lparr>phone_id_seq := 2\<rparr>) example_client_in 7 100 = (db', Inr d)"
    by (simp add: create_client_def insert_Client_def nextval_def bigint_max_def integer_max_def
      Client_violation_def Phone_violation_def get_Agent_def get_Client_def get_Status_def
      get_Stage_def too_long_def out_of_bigint_def or_empty_def rollback_def Let_def
      example_db_def example_agent_def example_client_def example_phone_def example_client_in_def)
  obtain db2 d2 where a: "create_agent example_db example_agent_in 8 = (db2, Inr d2)"
    by (simp add: create_agent_def insert_Agent_def nextval_def bigint_max_def
      Agent_violation_def too_long_def out_of_bigint_def or_empty_def Let_def
      example_db_def example_agent_def example_agent_in_def)
  have m: "ClientCreate.middle_name example_client_in = None"
    "AgentCreate.first_name example_agent_in = None"
    "AgentCreate.middle_name example_agent_in = None"
    by (simp_all add: example_client_in_def example_agent_in_def)
  from absent_names_stored_empty[of "example_db\<lparr>phone_id_seq := 2\<rparr>" example_client_in 7 100 db' d example_agent_in]
    c m
  have 1: "map_of d ''middle_name'' = Some (VStr [])" "get_client db' 7 = Some d"
    by simp_all
  from absent_names_stored_empty[of example_db example_client_in 8 100 db2 d2 example_agent_in]
    a m
  have 2: "map_of d2 ''first_name'' = Some (VStr [])" "map_of d2 ''middle_name'' = Some (VStr [])"
    by simp_all
  show ?thesis using c a 1 2 by simp
qed

text \<open>
  C7. A Passport created with a birth date and a department code is stored with both,
  and \<^verbatim>\<open>create_passport\<close> returns it with both; the passport entry of the dossier
  that \<^verbatim>\<open>get_client\<close> then returns has the other fields as supplied and has neither a
  \<^verbatim>\<open>birth_date\<close> nor a \<^verbatim>\<open>department_code\<close> key.
\<close>

theorem dossier_passport_omits_birth_date:
  "\<exists>db' ps d pd.
     create_passport example_db 3 example_passport_in 30 60 = (db', Inr ps)
     \<and> Passport.birth_date ps = Some 19900101
     \<and> Passport.department_code ps = Some ''770-001''
     \<and> get_client db' 3 = Some d
     \<and> map_of d ''passports'' = Some (VList [VDict pd])
     \<and> map_of pd ''passport_id'' = Some (VUUID 30)
     \<and> map_of pd ''full_name'' = Some (VStr ''Ivanov Ivan'')
     \<and> map_of pd ''issue_date'' = Some (VDate 20100101)
     \<and> map_of pd ''birth_date'' = None
     \<and> map_of pd ''department_code'' = None"
  by (simp add: create_passport_def Passport_violation_def get_Client_def get_client_def
      too_long_def client_to_dict_def selectinload_def get_Agent_def get_Status_def get_Stage_def
      opt_def Let_def example_db_def example_client_def example_phone_def example_agent_def
      example_passport_in_def)









lemma lower_of_char:
  "(of_char (lower ch) :: nat) =
     (if 65 \<le> (of_char ch :: nat) \<and> (of_char ch :: nat) \<le> 90 then of_char ch + 32 else of_char ch)"
  by (simp add: lower_def Let_def)

lemma lower_special [simp]:
  "lower ch = CHR ''%'' \<longleftrightarrow> ch = CHR ''%''"
  "lower ch = CHR ''_'' \<longleftrightarrow> ch = CHR ''_''"
  "lower ch = CHR 0x5C \<longleftrightarrow> ch = CHR 0x5C"
proof -
  have e: "\<And>c d. c = d \<longleftrightarrow> (of_char c :: nat) = of_char d" by simp
  show "lower ch = CHR ''%'' \<longleftrightarrow> ch = CHR ''%''"
    by (subst (1 2) e) (auto simp: lower_of_char)
  show "lower ch = CHR ''_'' \<longleftrightarrow> ch = CHR ''_''"
    by (subst (1 2) e) (auto simp: lower_of_char)
  show "lower ch = CHR 0x5C \<longleftrightarrow> ch = CHR 0x5C"
    by (subst (1 2) e) (auto simp: lower_of_char)
qed

lemma wildcard_free_lower [simp]: "wildcard_free (map lower q) = wildcard_free q"
  by (induction q) (simp_all add: wildcard_free_def)

lemma lower_percent [simp]: "lower CHR ''%'' = CHR ''%''"
  by (simp add: lower_def)



lemma set_order_by_external_id [simp]: "set (order_by_external_id rows) = set rows"
  by (auto simp: order_by_external_id_def)

lemma length_order_by_external_id [simp]: "length (order_by_external_id rows) = length rows"
proof -
  have "length (filter (\<lambda>c. Client.external_id c \<noteq> None) rows)
      + length (filter (\<lambda>c. \<not> Client.external_id c \<noteq> None) rows) = length rows"
    by (rule sum_length_filter_compl)
  then show ?thesis by (simp add: order_by_external_id_def)
qed




















































end
